theory Spec2Isabelle
  imports Complex_Main
begin

section \<open>Documents (backend/models)\<close>

text \<open>
  The backend of \<^verbatim>\<open>ecommerce_app.jsx\<close> keeps its state in MongoDB collections
  accessed through mongoose models. An ObjectId is a natural number here. A schema field
  of type \<^verbatim>\<open>String\<close> is a string, a \<^verbatim>\<open>Date\<close> is a natural number of
  milliseconds. A schema field of type \<^verbatim>\<open>Number\<close> holds a double; the model
  holds its value, a rational. Stock and quantities are counts: the handler compares and
  subtracts them, which doubles do exactly on whole numbers below \<open>2^53\<close>, and the model
  compares and subtracts the values. Prices are fractions, and the total multiplies and
  adds them: there every operation rounds its result to the nearest double
  (\<open>round_double\<close> below). NaN, the infinities and results beyond the largest finite
  double are outside the model.
\<close>

type_synonym oid = nat
type_synonym number = rat

text \<open>\<^verbatim>\<open>productSchema\<close> (models/Product.js); the description and the images play no role.\<close>

record product =
  name :: string
  price :: number
  stock :: number
  codAvailable :: bool

text \<open>\<^verbatim>\<open>cartItemSchema\<close> (models/Cart.js): a reference to a product and a quantity.\<close>

record cart_item =
  product :: oid
  quantity :: number

text \<open>\<^verbatim>\<open>shipmentSchema\<close> (models/Shipment.js). The status is a free string.\<close>

record shipment_doc =
  s_id :: oid
  trackingNumber :: string
  status :: string
  updatedAt :: nat

text \<open>\<^verbatim>\<open>orderItemSchema\<close> and \<^verbatim>\<open>orderSchema\<close> (models/Order.js).\<close>

record order_item =
  oi_product :: oid
  oi_quantity :: number
  priceAtPurchase :: number
  cod :: bool

record order =
  o_id :: oid
  user :: oid
  items :: "order_item list"
  total :: number
  paymentMethod :: string
  paymentStatus :: string
  shipment :: oid
  createdAt :: nat

text \<open>
  The database. Products are looked up by id only; there is one cart per user, looked up
  by the user's id (\<^verbatim>\<open>Cart.findOne({ user })\<close>). Shipments and orders are
  collections of documents in insertion order; \<^verbatim>\<open>create\<close> appends a document whose
  \<^verbatim>\<open>_id\<close> is drawn from the counter \<open>next_oid\<close>.
\<close>

record db =
  products :: "oid \<rightharpoonup> product"
  carts :: "oid \<rightharpoonup> cart_item list"
  shipments :: "shipment_doc list"
  orders :: "order list"
  next_oid :: oid

section \<open>Requests, responses and the environment\<close>

text \<open>
  A handler either answers with \<^verbatim>\<open>res.status(n).json({ error })\<close>, or an exception
  escapes the async handler (no response is sent), or it answers with its payload.
\<close>

datatype exn = TypeError | DbError

datatype error = Http nat string | Uncaught exn

text \<open>
  The checkout request: the authenticated user (\<^verbatim>\<open>req.user._id\<close>) and the body.
  The handler destructures \<^verbatim>\<open>paymentMethod\<close> and \<^verbatim>\<open>shippingAddress\<close> only
  (the latter is never used); any other field a caller sends, such as an idempotency
  key, is part of the request but never read.
\<close>

record request =
  req_user :: oid
  body_paymentMethod :: string
  idempotencyKey :: "string option"

record checkout_ok =
  orderId :: oid
  paymentRequired :: bool
  message :: string

text \<open>
  The writes of the checkout handler that the database may reject. \<open>fails\<close> tells which
  ones do; a rejected write throws out of the handler. Reads are taken to succeed. The
  time \<open>now\<close> a handler is given is what \<^verbatim>\<open>Date.now()\<close> returns while it runs.
\<close>

datatype db_op = ProductSave oid | ShipmentCreate | OrderCreate | CartSave

definition no_faults :: "db_op \<Rightarrow> bool" where
  "no_faults op = False"

section \<open>POST /checkout (backend/routes/checkout.js)\<close>

text \<open>
  \<^verbatim>\<open>.populate('items.product')\<close>: every cart line is paired with the product
  document its reference points to, or with null when there is none.
\<close>

definition populate :: "db \<Rightarrow> cart_item list \<Rightarrow> (cart_item \<times> product option) list" where
  "populate d its = map (\<lambda>i. (i, products d (product i))) its"

text \<open>
  The loop under \<^verbatim>\<open>// Validate stock\<close>. \<^verbatim>\<open>item.product._id\<close> throws on a null
  populated product, \<^verbatim>\<open>product.stock\<close> throws when \<^verbatim>\<open>findById\<close> finds nothing.
  The result is the early exit of the handler, if any.
\<close>

fun validate_stock :: "db \<Rightarrow> (cart_item \<times> product option) list \<Rightarrow> error option" where
  "validate_stock d [] = None"
| "validate_stock d ((i, doc) # rest) =
     (case doc of
        None \<Rightarrow> Some (Uncaught TypeError)
      | Some _ \<Rightarrow>
          (case products d (product i) of
             None \<Rightarrow> Some (Uncaught TypeError)
           | Some p \<Rightarrow>
               if stock p < quantity i
               then Some (Http 400 (''Not enough stock for '' @ name p))
               else validate_stock d rest))"

text \<open>
  The loop under \<^verbatim>\<open>// Reserve/decrement stock\<close>: re-read the product, subtract the
  quantity, save. An exception leaves the writes made so far in place.
\<close>

fun reserve_stock ::
  "(db_op \<Rightarrow> bool) \<Rightarrow> db \<Rightarrow> (cart_item \<times> product option) list \<Rightarrow> error option \<times> db" where
  "reserve_stock fails d [] = (None, d)"
| "reserve_stock fails d ((i, doc) # rest) =
     (case doc of
        None \<Rightarrow> (Some (Uncaught TypeError), d)
      | Some _ \<Rightarrow>
          (case products d (product i) of
             None \<Rightarrow> (Some (Uncaught TypeError), d)
           | Some p \<Rightarrow>
               if fails (ProductSave (product i)) then (Some (Uncaught DbError), d)
               else reserve_stock fails
                      (d\<lparr>products := (products d)(product i \<mapsto> p\<lparr>stock := stock p - quantity i\<rparr>)\<rparr>)
                      rest))"

text \<open>
  \<^verbatim>\<open>cart.items.map(i => ({ product: i.product._id, quantity: i.quantity,
  priceAtPurchase: i.product.price, cod: i.product.codAvailable }))\<close>, reading the
  populated documents; None when a populated product is null (a TypeError).
\<close>

fun order_items :: "(cart_item \<times> product option) list \<Rightarrow> order_item list option" where
  "order_items [] = Some []"
| "order_items ((i, doc) # rest) =
     (case doc of
        None \<Rightarrow> None
      | Some p \<Rightarrow>
          (case order_items rest of
             None \<Rightarrow> None
           | Some its \<Rightarrow>
               Some (\<lparr>oi_product = product i, oi_quantity = quantity i,
                      priceAtPurchase = price p, cod = codAvailable p\<rparr> # its)))"

text \<open>
  The arithmetic of \<^verbatim>\<open>Number\<close>: IEEE 754 binary64, rounding to nearest, ties to
  even. \<open>bit_length n\<close> is the number of binary digits of \<open>n\<close>, and \<open>floor_log2 a\<close>
  the exponent of the power of two at or below a positive \<open>a\<close>. A double has 53
  significant binary digits, and its last digit is worth at least \<open>2^-1074\<close>:
  \<open>round_double x\<close> is the multiple of that digit's worth nearest to \<open>x\<close>, the even
  one of two that are equally near.
\<close>

function bit_length :: "int \<Rightarrow> nat" where
  "bit_length n = (if n \<le> 0 then 0 else Suc (bit_length (n div 2)))"
  by pat_completeness auto
termination
  by (relation "measure nat") auto

declare bit_length.simps [simp del]

definition floor_log2 :: "rat \<Rightarrow> int" where
  "floor_log2 a =
     (if 1 \<le> a then int (bit_length \<lfloor>a\<rfloor>) - 1
      else - int (bit_length (\<lceil>1 / a\<rceil> - 1)))"

definition pow2 :: "int \<Rightarrow> rat" where
  "pow2 e = (if 0 \<le> e then 2 ^ nat e else 1 / 2 ^ nat (- e))"

definition round_half_even :: "rat \<Rightarrow> int" where
  "round_half_even q =
     (let f = \<lfloor>q\<rfloor>; r = q - of_int f
      in if r < 1 / 2 then f else if 1 / 2 < r then f + 1 else if even f then f else f + 1)"

definition round_double :: "number \<Rightarrow> number" where
  "round_double x =
     (if x = 0 then 0
      else
        let a = \<bar>x\<bar>;
            e = max (floor_log2 a - 52) (- 1074);
            n = round_half_even (a / pow2 e)
        in sgn x * of_int n * pow2 e)"

text \<open>
  \<^verbatim>\<open>items.reduce((s,it) => s + it.quantity*it.priceAtPurchase, 0)\<close>: the product is
  rounded, then the sum.
\<close>

definition order_total :: "order_item list \<Rightarrow> number" where
  "order_total its =
     foldl (\<lambda>s it. round_double (s + round_double (oi_quantity it * priceAtPurchase it))) 0 its"

text \<open>The decimal digits of a number, for \<^verbatim>\<open>`TRK-${Date.now()}`\<close>.\<close>

fun string_of_nat :: "nat \<Rightarrow> string" where
  "string_of_nat n =
     (if n < 10 then [''0123456789'' ! n]
      else string_of_nat (n div 10) @ [''0123456789'' ! (n mod 10)])"

declare string_of_nat.simps [simp del]

text \<open>
  The rest of the handler, from the construction of the order lines to the response:
  create the shipment, create the order, clear the cart, answer.
\<close>

definition place_order ::
  "(db_op \<Rightarrow> bool) \<Rightarrow> nat \<Rightarrow> request \<Rightarrow> (cart_item \<times> product option) list \<Rightarrow> db
    \<Rightarrow> (error + checkout_ok) \<times> db" where
  "place_order fails now req cart d1 =
     (case order_items cart of
        None \<Rightarrow> (Inl (Uncaught TypeError), d1)
      | Some its \<Rightarrow>
          if fails ShipmentCreate then (Inl (Uncaught DbError), d1)
          else
            let sh = \<lparr>s_id = next_oid d1, trackingNumber = ''TRK-'' @ string_of_nat now,
                      status = ''Created'', updatedAt = now\<rparr>;
                d2 = d1\<lparr>shipments := shipments d1 @ [sh], next_oid := next_oid d1 + 1\<rparr>
            in
              if fails OrderCreate then (Inl (Uncaught DbError), d2)
              else
                let ord = \<lparr>o_id = next_oid d2, user = req_user req, items = its,
                           total = order_total its,
                           paymentMethod = body_paymentMethod req,
                           paymentStatus =
                             (if body_paymentMethod req = ''cod'' then ''Pending''
                              else ''Processing''),
                           shipment = s_id sh, createdAt = now\<rparr>;
                    d3 = d2\<lparr>orders := orders d2 @ [ord], next_oid := next_oid d2 + 1\<rparr>
                in
                  if fails CartSave then (Inl (Uncaught DbError), d3)
                  else
                    (Inr \<lparr>orderId = o_id ord,
                          paymentRequired = (body_paymentMethod req \<noteq> ''cod''),
                          message = ''Order created. Proceed to payment if needed.''\<rparr>,
                     d3\<lparr>carts := (carts d3)(req_user req \<mapsto> [])\<rparr>))"

text \<open>The handler of \<^verbatim>\<open>router.post('/')\<close>, at time \<open>now\<close>.\<close>

definition checkout ::
  "(db_op \<Rightarrow> bool) \<Rightarrow> nat \<Rightarrow> request \<Rightarrow> db \<Rightarrow> (error + checkout_ok) \<times> db" where
  "checkout fails now req d =
     (case carts d (req_user req) of
        None \<Rightarrow> (Inl (Http 400 ''Empty cart''), d)
      | Some cart_items \<Rightarrow>
          if length cart_items = 0 then (Inl (Http 400 ''Empty cart''), d)
          else
            let cart = populate d cart_items in
            (case validate_stock d cart of
               Some e \<Rightarrow> (Inl e, d)
             | None \<Rightarrow>
                 (case reserve_stock fails d cart of
                    (Some e, d1) \<Rightarrow> (Inl e, d1)
                  | (None, d1) \<Rightarrow> place_order fails now req cart d1)))"

section \<open>GET /orders/:id/tracking and POST /orders/:id/shipment (backend/routes/orders.js)\<close>

text \<open>\<^verbatim>\<open>Order.findById\<close> and \<^verbatim>\<open>Shipment.findById\<close>.\<close>

definition find_order :: "db \<Rightarrow> oid \<Rightarrow> order option" where
  "find_order d i = find (\<lambda>x. o_id x = i) (orders d)"

definition find_shipment :: "db \<Rightarrow> oid \<Rightarrow> shipment_doc option" where
  "find_shipment d i = find (\<lambda>s. s_id s = i) (shipments d)"

text \<open>
  The tracking handler. \<^verbatim>\<open>.populate('shipment')\<close> leaves null when the referenced
  shipment is missing, and \<^verbatim>\<open>order.shipment.trackingNumber\<close> then throws.
\<close>

definition tracking :: "db \<Rightarrow> oid \<Rightarrow> error + string \<times> string" where
  "tracking d i =
     (case find_order d i of
        None \<Rightarrow> Inl (Http 404 ''Order not found'')
      | Some ord \<Rightarrow>
          (case find_shipment d (shipment ord) of
             None \<Rightarrow> Inl (Uncaught TypeError)
           | Some sh \<Rightarrow> Inr (trackingNumber sh, status sh)))"

text \<open>\<^verbatim>\<open>shipment.save()\<close>: the stored document with that id is replaced.\<close>

fun save_shipment :: "shipment_doc \<Rightarrow> shipment_doc list \<Rightarrow> shipment_doc list" where
  "save_shipment sh [] = []"
| "save_shipment sh (x # xs) =
     (if s_id x = s_id sh then sh # xs else x # save_shipment sh xs)"

text \<open>
  The shipment update handler, at time \<open>now\<close>, with the \<^verbatim>\<open>status\<close> of the body.
  The answer \<^verbatim>\<open>{ ok: true }\<close> is the value True.
\<close>

definition update_shipment :: "nat \<Rightarrow> oid \<Rightarrow> string \<Rightarrow> db \<Rightarrow> (error + bool) \<times> db" where
  "update_shipment now i st d =
     (case find_order d i of
        None \<Rightarrow> (Inl (Http 404 ''Order not found''), d)
      | Some ord \<Rightarrow>
          (case find_shipment d (shipment ord) of
             None \<Rightarrow> (Inl (Uncaught TypeError), d)
           | Some sh \<Rightarrow>
               (Inr True,
                d\<lparr>shipments :=
                    save_shipment (sh\<lparr>status := st, updatedAt := now\<rparr>) (shipments d)\<rparr>)))"

section \<open>The checkout handler, one database call at a time\<close>

text \<open>
  Node runs the handlers of concurrent requests on one thread and switches between them
  at each \<^verbatim>\<open>await\<close>; the database serves one call at a time. So an execution of
  several checkout requests is an interleaving of their database calls. A handler's
  position is the database call it waits for, with the local variables it holds:
  \<^item> \<open>FindCart\<close>: \<^verbatim>\<open>Cart.findOne(...).populate(...)\<close>;
  \<^item> \<open>Validate cart rest\<close>: \<^verbatim>\<open>Product.findById\<close> in the first loop, \<open>rest\<close> being
    the lines still to check (with no line left, the handler moves on to the second loop);
  \<^item> \<open>ReserveFind cart rest\<close>: \<^verbatim>\<open>Product.findById\<close> in the second loop;
  \<^item> \<open>ReserveSave cart rest pid p\<close>: \<^verbatim>\<open>product.save()\<close> of the document \<open>p\<close>
    read before, its stock already lowered;
  \<^item> \<open>CreateShipment\<close>, \<open>CreateOrder\<close>, \<open>SaveCart\<close>: the three writes that follow;
  \<^item> \<open>Done r\<close>: the handler has answered \<open>r\<close> (or thrown).
  A handler that runs alone from \<open>FindCart\<close> ends with the response and the database
  of \<open>checkout\<close> above (lemma \<open>checkout_steps_alone\<close> below).
\<close>

datatype pc =
    FindCart
  | Validate "(cart_item \<times> product option) list" "(cart_item \<times> product option) list"
  | ReserveFind "(cart_item \<times> product option) list" "(cart_item \<times> product option) list"
  | ReserveSave "(cart_item \<times> product option) list" "(cart_item \<times> product option) list"
      oid product
  | CreateShipment "(cart_item \<times> product option) list"
  | CreateOrder "order_item list" oid
  | SaveCart oid
  | Done "error + checkout_ok"

text \<open>One database call of the handler of request \<open>req\<close>, started at time \<open>now\<close>.\<close>

fun checkout_step :: "(db_op \<Rightarrow> bool) \<Rightarrow> nat \<Rightarrow> request \<Rightarrow> pc \<Rightarrow> db \<Rightarrow> pc \<times> db" where
  "checkout_step fails now req FindCart d =
     (case carts d (req_user req) of
        None \<Rightarrow> (Done (Inl (Http 400 ''Empty cart'')), d)
      | Some cart_items \<Rightarrow>
          if length cart_items = 0 then (Done (Inl (Http 400 ''Empty cart'')), d)
          else (Validate (populate d cart_items) (populate d cart_items), d))"
| "checkout_step fails now req (Validate cart []) d = (ReserveFind cart cart, d)"
| "checkout_step fails now req (Validate cart ((i, doc) # rest)) d =
     (case doc of
        None \<Rightarrow> (Done (Inl (Uncaught TypeError)), d)
      | Some _ \<Rightarrow>
          (case products d (product i) of
             None \<Rightarrow> (Done (Inl (Uncaught TypeError)), d)
           | Some p \<Rightarrow>
               if stock p < quantity i
               then (Done (Inl (Http 400 (''Not enough stock for '' @ name p))), d)
               else (Validate cart rest, d)))"
| "checkout_step fails now req (ReserveFind cart []) d = (CreateShipment cart, d)"
| "checkout_step fails now req (ReserveFind cart ((i, doc) # rest)) d =
     (case doc of
        None \<Rightarrow> (Done (Inl (Uncaught TypeError)), d)
      | Some _ \<Rightarrow>
          (case products d (product i) of
             None \<Rightarrow> (Done (Inl (Uncaught TypeError)), d)
           | Some p \<Rightarrow>
               (ReserveSave cart rest (product i) (p\<lparr>stock := stock p - quantity i\<rparr>), d)))"
| "checkout_step fails now req (ReserveSave cart rest pid p) d =
     (if fails (ProductSave pid) then (Done (Inl (Uncaught DbError)), d)
      else (ReserveFind cart rest, d\<lparr>products := (products d)(pid \<mapsto> p)\<rparr>))"
| "checkout_step fails now req (CreateShipment cart) d =
     (case order_items cart of
        None \<Rightarrow> (Done (Inl (Uncaught TypeError)), d)
      | Some its \<Rightarrow>
          if fails ShipmentCreate then (Done (Inl (Uncaught DbError)), d)
          else
            (CreateOrder its (next_oid d),
             d\<lparr>shipments := shipments d @
                  [\<lparr>s_id = next_oid d, trackingNumber = ''TRK-'' @ string_of_nat now,
                    status = ''Created'', updatedAt = now\<rparr>],
               next_oid := next_oid d + 1\<rparr>))"
| "checkout_step fails now req (CreateOrder its sid) d =
     (if fails OrderCreate then (Done (Inl (Uncaught DbError)), d)
      else
        (SaveCart (next_oid d),
         d\<lparr>orders := orders d @
              [\<lparr>o_id = next_oid d, user = req_user req, items = its,
                total = order_total its,
                paymentMethod = body_paymentMethod req,
                paymentStatus =
                  (if body_paymentMethod req = ''cod'' then ''Pending'' else ''Processing''),
                shipment = sid, createdAt = now\<rparr>],
           next_oid := next_oid d + 1\<rparr>))"
| "checkout_step fails now req (SaveCart ordid) d =
     (if fails CartSave then (Done (Inl (Uncaught DbError)), d)
      else
        (Done (Inr \<lparr>orderId = ordid,
                    paymentRequired = (body_paymentMethod req \<noteq> ''cod''),
                    message = ''Order created. Proceed to payment if needed.''\<rparr>),
         d\<lparr>carts := (carts d)(req_user req \<mapsto> [])\<rparr>))"
| "checkout_step fails now req (Done r) d = (Done r, d)"

text \<open>A running handler, and a set of them over one database.\<close>

record handler =
  h_now :: nat
  h_req :: request
  h_pc :: pc

definition start :: "nat \<Rightarrow> request \<Rightarrow> handler" where
  "start now req = \<lparr>h_now = now, h_req = req, h_pc = FindCart\<rparr>"

text \<open>
  \<open>run_handler fails k\<close> lets handler number \<open>k\<close> make its next database call;
  a schedule is the list of the handlers' turns.
\<close>

definition run_handler :: "(db_op \<Rightarrow> bool) \<Rightarrow> nat \<Rightarrow> handler list \<times> db \<Rightarrow> handler list \<times> db" where
  "run_handler fails k c =
     (case c of (hs, d) \<Rightarrow>
        if k < length hs then
          (case checkout_step fails (h_now (hs ! k)) (h_req (hs ! k)) (h_pc (hs ! k)) d of
             (pc', d') \<Rightarrow> (hs[k := (hs ! k)\<lparr>h_pc := pc'\<rparr>], d'))
        else (hs, d))"

definition run_schedule :: "(db_op \<Rightarrow> bool) \<Rightarrow> nat list \<Rightarrow> handler list \<times> db \<Rightarrow> handler list \<times> db" where
  "run_schedule fails sched c = fold (run_handler fails) sched c"

text \<open>\<open>n\<close> database calls of one handler with no other handler running.\<close>

definition run_alone ::
  "(db_op \<Rightarrow> bool) \<Rightarrow> nat \<Rightarrow> request \<Rightarrow> nat \<Rightarrow> pc \<times> db \<Rightarrow> pc \<times> db" where
  "run_alone fails now req n c = ((\<lambda>(pc, d). checkout_step fails now req pc d) ^^ n) c"

section \<open>Quantities\<close>

text \<open>The quantity of product \<open>pid\<close> a cart asks for, summed over the lines that name it.\<close>

definition cart_quantity :: "cart_item list \<Rightarrow> oid \<Rightarrow> number" where
  "cart_quantity its pid = sum_list (map quantity (filter (\<lambda>i. product i = pid) its))"

text \<open>
  Starting from the partial sum \<open>s\<close>, every product quantity times priceAtPurchase of
  the lines and every partial sum is a double already, so that no operation of the total
  rounds.
\<close>

fun exact_from :: "number \<Rightarrow> order_item list \<Rightarrow> bool" where
  "exact_from s [] = True"
| "exact_from s (it # its) =
     (round_double (oi_quantity it * priceAtPurchase it) = oi_quantity it * priceAtPurchase it \<and>
      round_double (s + oi_quantity it * priceAtPurchase it) =
        s + oi_quantity it * priceAtPurchase it \<and>
      exact_from (s + oi_quantity it * priceAtPurchase it) its)"

section \<open>Checkout requests handled one after the other\<close>

text \<open>The lines of a user's cart; none when there is no cart.\<close>

definition cart_of :: "db \<Rightarrow> oid \<Rightarrow> cart_item list" where
  "cart_of d u = (case carts d u of None \<Rightarrow> [] | Some its \<Rightarrow> its)"

text \<open>
  The requests \<open>rs\<close> (each with its time) handled one after the other, every write
  succeeding: the responses and the final database.
\<close>

fun checkout_seq :: "(nat \<times> request) list \<Rightarrow> db \<Rightarrow> (error + checkout_ok) list \<times> db" where
  "checkout_seq [] d = ([], d)"
| "checkout_seq ((now, req) # rs) d =
     (case checkout no_faults now req d of
        (r, d1) \<Rightarrow> (case checkout_seq rs d1 of (out, d2) \<Rightarrow> (r # out, d2)))"

text \<open>
  The quantity of product \<open>pid\<close> asked for by those of the requests \<open>rs\<close> that
  succeed, each read from the requester's cart when the request is handled.
\<close>

fun sold :: "oid \<Rightarrow> (nat \<times> request) list \<Rightarrow> db \<Rightarrow> number" where
  "sold pid [] d = 0"
| "sold pid ((now, req) # rs) d =
     (case checkout no_faults now req d of
        (Inr ok, d1) \<Rightarrow> cart_quantity (cart_of d (req_user req)) pid + sold pid rs d1
      | (Inl e, d1) \<Rightarrow> sold pid rs d1)"

section \<open>Example data\<close>

text \<open>
  A shop with product P (10 a piece, one in stock, cash on delivery allowed) and product
  Q, and the carts of users 10 to 14; user 15 has no cart.
\<close>

definition demo_db :: db where
  "demo_db =
     \<lparr>products =
        [1 \<mapsto> \<lparr>name = ''P'', price = 10, stock = 1, codAvailable = True\<rparr>,
         2 \<mapsto> \<lparr>name = ''Q'', price = 5 / 2, stock = 5, codAvailable = False\<rparr>],
      carts =
        [10 \<mapsto> [\<lparr>product = 1, quantity = 1\<rparr>],
         11 \<mapsto> [\<lparr>product = 1, quantity = 1\<rparr>],
         12 \<mapsto> [\<lparr>product = 2, quantity = 2\<rparr>, \<lparr>product = 1, quantity = 3\<rparr>],
         13 \<mapsto> [],
         14 \<mapsto> [\<lparr>product = 2, quantity = 2\<rparr>, \<lparr>product = 1, quantity = 1\<rparr>]],
      shipments = [],
      orders = [],
      next_oid = 100\<rparr>"

definition cod_request :: "oid \<Rightarrow> request" where
  "cod_request u = \<lparr>req_user = u, body_paymentMethod = ''cod'', idempotencyKey = Some ''k1''\<rparr>"

definition card_request :: "oid \<Rightarrow> request" where
  "card_request u = \<lparr>req_user = u, body_paymentMethod = ''card'', idempotencyKey = None\<rparr>"

text \<open>The shop after user 14 has checked out at time 7.\<close>

definition placed_db :: db where
  "placed_db = snd (checkout no_faults 7 (cod_request 14) demo_db)"

text \<open>A database in which order 53 refers to shipment 52, which does not exist.\<close>

definition dangling_db :: db where
  "dangling_db =
     \<lparr>products = Map.empty, carts = Map.empty,
      shipments =
        [\<lparr>s_id = 50, trackingNumber = ''TRK-7'', status = ''Shipped'', updatedAt = 8\<rparr>],
      orders =
        [\<lparr>o_id = 51, user = 10, items = [], total = 0, paymentMethod = ''cod'',
          paymentStatus = ''Pending'', shipment = 50, createdAt = 7\<rparr>,
         \<lparr>o_id = 53, user = 11, items = [], total = 0, paymentMethod = ''card'',
          paymentStatus = ''Processing'', shipment = 52, createdAt = 9\<rparr>],
      next_oid = 100\<rparr>"

text \<open>
  The shop with one more cart: user 16's first line names product 9, which does not
  exist, and the second asks for three P.
\<close>

definition dangling_cart_db :: db where
  "dangling_cart_db =
     demo_db\<lparr>carts := (carts demo_db)
       (16 \<mapsto> [\<lparr>product = 9, quantity = 1\<rparr>, \<lparr>product = 1, quantity = 3\<rparr>])\<rparr>"

text \<open>
  A shop whose product R costs 0.1, stored as the double nearest to it; user 20 has three
  R in the cart.
\<close>

definition dime_db :: db where
  "dime_db =
     \<lparr>products =
        [3 \<mapsto> \<lparr>name = ''R'', price = 3602879701896397 / 36028797018963968, stock = 5,
               codAvailable = True\<rparr>],
      carts = [20 \<mapsto> [\<lparr>product = 3, quantity = 3\<rparr>]],
      shipments = [],
      orders = [],
      next_oid = 100\<rparr>"

text \<open>Environments in which one write is rejected.\<close>

definition shipment_down :: "db_op \<Rightarrow> bool" where
  "shipment_down op = (op = ShipmentCreate)"

definition order_down :: "db_op \<Rightarrow> bool" where
  "order_down op = (op = OrderCreate)"

definition cart_down :: "db_op \<Rightarrow> bool" where
  "cart_down op = (op = CartSave)"

section \<open>Evaluation on the example data\<close>

lemma string_of_nat_7: "string_of_nat 7 = ''7''"
  by (simp add: string_of_nat.simps)

lemma round_double_5: "round_double 5 = 5"
  by code_simp

lemma round_double_10: "round_double 10 = 10"
  by code_simp

lemma round_double_15: "round_double 15 = 15"
  by code_simp

lemma round_double_tenth: "round_double (1 / 10) = 3602879701896397 / 36028797018963968"
  by code_simp

lemma round_double_three_tenths:
  "round_double (10808639105689191 / 36028797018963968) = 1351079888211149 / 4503599627370496"
  by code_simp

lemma round_double_rounded:
  "round_double (1351079888211149 / 4503599627370496) = 1351079888211149 / 4503599627370496"
  by code_simp

lemma round_double_big: "round_double (9007199254740992 + 1) = 9007199254740992"
  by code_simp

lemmas round_double_evals =
  round_double_5 round_double_10 round_double_15 round_double_three_tenths
  round_double_rounded

lemmas eval_defs =
  checkout_def demo_db_def cod_request_def card_request_def populate_def place_order_def
  no_faults_def Let_def order_total_def string_of_nat_7 round_double_evals

lemma cod_request_sel:
  "req_user (cod_request u) = u" "body_paymentMethod (cod_request u) = ''cod''"
  by (simp_all add: cod_request_def)

lemma demo_db_products:
  "products demo_db 1 = Some \<lparr>name = ''P'', price = 10, stock = 1, codAvailable = True\<rparr>"
  "products demo_db 2 = Some \<lparr>name = ''Q'', price = 5 / 2, stock = 5, codAvailable = False\<rparr>"
  "products demo_db 3 = None"
  by (simp_all add: demo_db_def)

lemma cart_demo_14:
  "carts demo_db (req_user (cod_request 14)) =
     Some [\<lparr>product = 2, quantity = 2\<rparr>, \<lparr>product = 1, quantity = 1\<rparr>]"
  by (simp add: demo_db_def cod_request_def)

lemma checkout_demo_14_response:
  "fst (checkout no_faults 7 (cod_request 14) demo_db) =
     Inr \<lparr>orderId = 101, paymentRequired = False,
          message = ''Order created. Proceed to payment if needed.''\<rparr>"
  by (simp add: eval_defs)

lemma checkout_demo_14_orders:
  "orders (snd (checkout no_faults 7 (cod_request 14) demo_db)) =
     [\<lparr>o_id = 101, user = 14,
       items =
         [\<lparr>oi_product = 2, oi_quantity = 2, priceAtPurchase = 5 / 2, cod = False\<rparr>,
          \<lparr>oi_product = 1, oi_quantity = 1, priceAtPurchase = 10, cod = True\<rparr>],
       total = 15, paymentMethod = ''cod'', paymentStatus = ''Pending'', shipment = 100,
       createdAt = 7\<rparr>]"
  by (simp add: eval_defs)

lemma checkout_demo_14:
  "checkout no_faults 7 (cod_request 14) demo_db =
     (Inr \<lparr>orderId = 101, paymentRequired = False,
           message = ''Order created. Proceed to payment if needed.''\<rparr>,
      snd (checkout no_faults 7 (cod_request 14) demo_db))"
  by (rule prod_eqI) (simp_all add: checkout_demo_14_response)

lemma placed_db_shipments:
  "shipments placed_db =
     [\<lparr>s_id = 100, trackingNumber = ''TRK-7'', status = ''Created'', updatedAt = 7\<rparr>]"
  by (simp add: placed_db_def eval_defs)

lemma placed_db_orders:
  "orders placed_db =
     [\<lparr>o_id = 101, user = 14,
       items =
         [\<lparr>oi_product = 2, oi_quantity = 2, priceAtPurchase = 5 / 2, cod = False\<rparr>,
          \<lparr>oi_product = 1, oi_quantity = 1, priceAtPurchase = 10, cod = True\<rparr>],
       total = 15, paymentMethod = ''cod'', paymentStatus = ''Pending'', shipment = 100,
       createdAt = 7\<rparr>]"
  by (simp add: placed_db_def checkout_demo_14_orders)

lemmas placed_db_simps =
  find_order_def find_shipment_def update_shipment_def placed_db_shipments placed_db_orders

lemma string_of_nat_8: "string_of_nat 8 = ''8''"
  by (simp add: string_of_nat.simps)

lemmas race_defs =
  run_schedule_def run_handler_def start_def demo_db_def cod_request_def populate_def
  no_faults_def order_total_def cart_of_def cart_quantity_def string_of_nat_7 string_of_nat_8
  round_double_evals

section \<open>The stock loops\<close>

lemma reserve_stock_frame:
  "reserve_stock fails d cart = (e, d1) \<Longrightarrow> d1 = d\<lparr>products := products d1\<rparr>"
proof (induction cart arbitrary: d)
  case Nil
  then show ?case by simp
next
  case (Cons a cart)
  obtain i doc where a: "a = (i, doc)" by (cases a)
  from Cons.prems show ?case
    unfolding a
    by (auto split: option.splits if_splits dest!: Cons.IH)
qed

lemma reserve_stock_products:
  "reserve_stock fails d cart = (None, d1) \<Longrightarrow>
   products d1 pid =
     map_option (\<lambda>p. p\<lparr>stock := stock p - cart_quantity (map fst cart) pid\<rparr>) (products d pid)"
proof (induction cart arbitrary: d)
  case Nil
  then show ?case by (simp add: cart_quantity_def option.map_ident)
next
  case (Cons a cart)
  obtain i doc where a: "a = (i, doc)" by (cases a)
  from Cons.prems show ?case
    unfolding a
    by (auto split: option.splits if_splits dest!: Cons.IH simp: cart_quantity_def algebra_simps)
qed

lemma map_fst_populate: "map fst (populate d its) = its"
  by (simp add: populate_def comp_def)

lemma cart_quantity_absent: "pid \<notin> product ` set its \<Longrightarrow> cart_quantity its pid = 0"
proof -
  assume "pid \<notin> product ` set its"
  then have "filter (\<lambda>i. product i = pid) its = []"
    by (auto simp: filter_empty_conv)
  then show ?thesis by (simp add: cart_quantity_def)
qed

lemma validate_stock_first_failure:
  assumes "\<forall>i\<in>set pre. \<exists>q. products d (product i) = Some q \<and> \<not> stock q < quantity i"
    and "products d (product it) = Some p" and "stock p < quantity it"
  shows "validate_stock d (populate d (pre @ it # post)) =
           Some (Http 400 (''Not enough stock for '' @ name p))"
  using assms by (induction pre) (auto simp: populate_def)

lemma validate_stock_docs:
  "validate_stock d cart = None \<Longrightarrow>
   \<forall>(i, doc)\<in>set cart. doc \<noteq> None \<and> products d (product i) \<noteq> None"
proof (induction cart)
  case Nil
  then show ?case by simp
next
  case (Cons a cart)
  obtain i doc where a: "a = (i, doc)" by (cases a)
  from Cons show ?case
    unfolding a by (auto split: option.splits if_splits)
qed

lemma reserve_stock_no_exit:
  assumes "\<forall>(i, doc)\<in>set cart. doc \<noteq> None \<and> products d (product i) \<noteq> None"
    and "\<forall>pid. \<not> fails (ProductSave pid)"
  shows "fst (reserve_stock fails d cart) = None"
  using assms(1)
proof (induction cart arbitrary: d)
  case Nil
  then show ?case by simp
next
  case (Cons a cart)
  obtain i doc where a: "a = (i, doc)" by (cases a)
  from Cons.prems obtain p q where d: "doc = Some q" and p: "products d (product i) = Some p"
    unfolding a by auto
  let ?d = "d\<lparr>products := (products d)(product i \<mapsto> p\<lparr>stock := stock p - quantity i\<rparr>)\<rparr>"
  have "\<forall>(j, doc)\<in>set cart. doc \<noteq> None \<and> products ?d (product j) \<noteq> None"
    using Cons.prems unfolding a by auto
  from Cons.IH[OF this] show ?case
    unfolding a using d p assms(2) by simp
qed

lemma order_items_docs:
  "\<forall>(i, doc)\<in>set cart. doc \<noteq> None \<Longrightarrow> order_items cart \<noteq> None"
proof (induction cart)
  case Nil
  then show ?case by simp
next
  case (Cons a cart)
  obtain i doc where a: "a = (i, doc)" by (cases a)
  from Cons show ?case
    unfolding a by (auto split: option.splits)
qed

lemma reserve_stock_fields:
  assumes "reserve_stock fails d cart = (e, d1)"
  shows "carts d1 = carts d" "shipments d1 = shipments d" "orders d1 = orders d"
    "next_oid d1 = next_oid d"
proof -
  from reserve_stock_frame[OF assms] obtain P where "d1 = d\<lparr>products := P\<rparr>" by blast
  then show "carts d1 = carts d" "shipments d1 = shipments d" "orders d1 = orders d"
    "next_oid d1 = next_oid d"
    by simp_all
qed

section \<open>A successful checkout\<close>

lemma place_order_frame:
  "place_order fails now req cart d1 = (r, d') \<Longrightarrow> products d' = products d1"
  by (auto simp: place_order_def Let_def split: option.splits if_splits)

lemma place_order_success:
  assumes "place_order fails now req cart d1 = (Inr ok, d')"
  shows "\<exists>its sh ord.
           order_items cart = Some its \<and>
           sh = \<lparr>s_id = next_oid d1, trackingNumber = ''TRK-'' @ string_of_nat now,
                  status = ''Created'', updatedAt = now\<rparr> \<and>
           ord = \<lparr>o_id = next_oid d1 + 1, user = req_user req, items = its,
                   total = order_total its, paymentMethod = body_paymentMethod req,
                   paymentStatus =
                     (if body_paymentMethod req = ''cod'' then ''Pending'' else ''Processing''),
                   shipment = next_oid d1, createdAt = now\<rparr> \<and>
           ok = \<lparr>orderId = next_oid d1 + 1,
                  paymentRequired = (body_paymentMethod req \<noteq> ''cod''),
                  message = ''Order created. Proceed to payment if needed.''\<rparr> \<and>
           d' = d1\<lparr>shipments := shipments d1 @ [sh], orders := orders d1 @ [ord],
                    next_oid := next_oid d1 + 2,
                    carts := (carts d1)(req_user req \<mapsto> [])\<rparr>"
  using assms
  by (auto simp: place_order_def Let_def split: option.splits if_splits)

lemma checkout_success:
  assumes "checkout fails now req d = (Inr ok, d')"
  shows "\<exists>its d1. carts d (req_user req) = Some its \<and> its \<noteq> [] \<and>
           validate_stock d (populate d its) = None \<and>
           reserve_stock fails d (populate d its) = (None, d1) \<and>
           place_order fails now req (populate d its) d1 = (Inr ok, d')"
  using assms
  by (auto simp: checkout_def Let_def split: option.splits if_splits prod.splits)

lemma checkout_products:
  assumes "checkout fails now req d = (Inr ok, d')" and "carts d (req_user req) = Some its"
  shows "products d' pid =
     map_option (\<lambda>p. p\<lparr>stock := stock p - cart_quantity its pid\<rparr>) (products d pid)"
  using assms
  by (auto simp: checkout_def Let_def map_fst_populate split: option.splits if_splits prod.splits
      dest!: place_order_frame dest: reserve_stock_products[where pid = pid])

lemma foldl_exact:
  "exact_from s its \<Longrightarrow>
   foldl (\<lambda>s it. round_double (s + round_double (oi_quantity it * priceAtPurchase it))) s its =
     s + (\<Sum>it\<leftarrow>its. oi_quantity it * priceAtPurchase it)"
  by (induction its arbitrary: s) (simp_all add: add.assoc)

lemma order_total_exact:
  "exact_from 0 its \<Longrightarrow> order_total its = (\<Sum>it\<leftarrow>its. oi_quantity it * priceAtPurchase it)"
  using foldl_exact[of 0 its] by (simp add: order_total_def)

lemma order_items_populate:
  "order_items (populate d its) = Some ois \<Longrightarrow>
   map oi_product ois = map product its \<and> map oi_quantity ois = map quantity its \<and>
   map (\<lambda>it. Some (priceAtPurchase it)) ois =
     map (\<lambda>i. map_option price (products d (product i))) its \<and>
   map (\<lambda>it. Some (cod it)) ois =
     map (\<lambda>i. map_option codAvailable (products d (product i))) its"
  by (induction its arbitrary: ois) (auto simp: populate_def split: option.splits)

lemma checkout_order:
  assumes "checkout fails now req d = (Inr ok, d')"
  shows "\<exists>its d1 ois. carts d (req_user req) = Some its \<and>
           reserve_stock fails d (populate d its) = (None, d1) \<and>
           order_items (populate d its) = Some ois \<and>
           orders d' = orders d @
             [\<lparr>o_id = orderId ok, user = req_user req, items = ois,
               total = order_total ois, paymentMethod = body_paymentMethod req,
               paymentStatus =
                 (if body_paymentMethod req = ''cod'' then ''Pending'' else ''Processing''),
               shipment = next_oid d, createdAt = now\<rparr>] \<and>
           paymentRequired ok = (body_paymentMethod req \<noteq> ''cod'')"
proof -
  from checkout_success[OF assms] obtain its d1 where
    c: "carts d (req_user req) = Some its" and
    r: "reserve_stock fails d (populate d its) = (None, d1)" and
    p: "place_order fails now req (populate d its) d1 = (Inr ok, d')"
    by blast
  from reserve_stock_frame[OF r] have f: "orders d1 = orders d" "next_oid d1 = next_oid d"
    by (metis db.select_convs(4) db.surjective db.update_convs(1),
        metis db.select_convs(5) db.surjective db.update_convs(1))
  from place_order_success[OF p] f c r show ?thesis by auto
qed

lemma place_order_orders:
  assumes "place_order fails now req cart d1 = (r, d')"
  shows "orders d' = orders d1 \<or>
         (\<exists>ois. order_items cart = Some ois \<and>
            orders d' = orders d1 @
              [\<lparr>o_id = next_oid d1 + 1, user = req_user req, items = ois,
                total = order_total ois, paymentMethod = body_paymentMethod req,
                paymentStatus =
                  (if body_paymentMethod req = ''cod'' then ''Pending'' else ''Processing''),
                shipment = next_oid d1, createdAt = now\<rparr>])"
  using assms
  by (auto simp: place_order_def Let_def split: option.splits if_splits)

lemma checkout_orders:
  assumes "checkout fails now req d = (r, d')" and "orders d' \<noteq> orders d"
  shows "\<exists>its ois. carts d (req_user req) = Some its \<and>
           order_items (populate d its) = Some ois \<and>
           orders d' = orders d @
             [\<lparr>o_id = next_oid d + 1, user = req_user req, items = ois,
               total = order_total ois, paymentMethod = body_paymentMethod req,
               paymentStatus =
                 (if body_paymentMethod req = ''cod'' then ''Pending'' else ''Processing''),
               shipment = next_oid d, createdAt = now\<rparr>]"
proof (cases "carts d (req_user req)")
  case None
  with assms show ?thesis by (simp add: checkout_def)
next
  case (Some its)
  let ?cart = "populate d its"
  show ?thesis
  proof (cases "its = [] \<or> validate_stock d ?cart \<noteq> None")
    case True
    with assms Some show ?thesis
      by (auto simp: checkout_def Let_def split: if_splits option.splits)
  next
    case False
    obtain e d1 where rs: "reserve_stock fails d ?cart = (e, d1)"
      by (cases "reserve_stock fails d ?cart")
    note f = reserve_stock_fields[OF rs]
    show ?thesis
    proof (cases e)
      case (Some x)
      with assms \<open>carts d (req_user req) = Some its\<close> False rs f show ?thesis
        by (auto simp: checkout_def Let_def)
    next
      case None
      with assms(1) \<open>carts d (req_user req) = Some its\<close> False rs
      have p: "place_order fails now req ?cart d1 = (r, d')"
        by (auto simp: checkout_def Let_def)
      from place_order_orders[OF p] assms(2) f \<open>carts d (req_user req) = Some its\<close>
      show ?thesis by auto
    qed
  qed
qed

section \<open>Order totals and payment status\<close>

text \<open>
  C4, as stated, does not hold of the handler. Product R costs 0.1, held as the double
  nearest to it, and user 20 orders three. The order's total is the double
  0.30000000000000004, which is not the exact product of 3 and the priceAtPurchase: the
  multiplication of doubles rounds. The sum rounds as well: \<open>2^53 + 1\<close> is stored as
  \<open>2^53\<close> (lemma \<open>round_double_big\<close>).
\<close>

theorem checkout_total_rounds:
  "map_option price (products dime_db 3) = Some (round_double (1 / 10)) \<and>
   fst (checkout no_faults 7 (cod_request 20) dime_db) =
     Inr \<lparr>orderId = 101, paymentRequired = False,
          message = ''Order created. Proceed to payment if needed.''\<rparr> \<and>
   map oi_quantity (items (last (orders (snd (checkout no_faults 7 (cod_request 20) dime_db)))))
     = [3] \<and>
   map priceAtPurchase
     (items (last (orders (snd (checkout no_faults 7 (cod_request 20) dime_db)))))
     = [3602879701896397 / 36028797018963968] \<and>
   total (last (orders (snd (checkout no_faults 7 (cod_request 20) dime_db)))) =
     1351079888211149 / 4503599627370496 \<and>
   (3::rat) * (3602879701896397 / 36028797018963968) \<noteq> 1351079888211149 / 4503599627370496"
  by (simp add: checkout_def dime_db_def cod_request_def populate_def place_order_def
      no_faults_def Let_def order_total_def string_of_nat_7 round_double_evals round_double_tenth)

text \<open>
  C4, as the handler has it. Every order stored by checkout, whether the handler then
  answers or the clearing of the cart fails, is the one document appended to the
  orders. Its lines follow the cart, and each priceAtPurchase is the price of the product
  document the server held when checkout ran. Its total is the sum over its lines of
  quantity times priceAtPurchase as doubles compute it, from left to right, every
  product and every partial sum rounded; it is the exact sum whenever none of these
  operations rounds. The order stores these values, so whatever the products are changed
  to afterwards, the stored order is the same.
\<close>

theorem checkout_total_rounded:
  assumes "checkout fails now req d = (r, d')"
    and "orders d' \<noteq> orders d"
    and "carts d (req_user req) = Some its"
  shows "let ord = last (orders d') in
           orders d' = orders d @ [ord] \<and>
           total ord = order_total (items ord) \<and>
           (exact_from 0 (items ord) \<longrightarrow>
              total ord = (\<Sum>it\<leftarrow>items ord. oi_quantity it * priceAtPurchase it)) \<and>
           map oi_product (items ord) = map product its \<and>
           map oi_quantity (items ord) = map quantity its \<and>
           map (\<lambda>it. Some (priceAtPurchase it)) (items ord) =
             map (\<lambda>i. map_option price (products d (product i))) its \<and>
           (\<forall>P. orders (d'\<lparr>products := P\<rparr>) = orders d')"
proof -
  from checkout_orders[OF assms(1,2)] assms(3) obtain ois where
    oi: "order_items (populate d its) = Some ois" and
    od: "orders d' = orders d @
       [\<lparr>o_id = next_oid d + 1, user = req_user req, items = ois,
         total = order_total ois, paymentMethod = body_paymentMethod req,
         paymentStatus =
           (if body_paymentMethod req = ''cod'' then ''Pending'' else ''Processing''),
         shipment = next_oid d, createdAt = now\<rparr>]"
    by auto
  from order_items_populate[OF oi] od show ?thesis
    by (simp add: Let_def order_total_exact)
qed

theorem checkout_total_rounded_witness:
  "fst (checkout no_faults 7 (cod_request 14) demo_db) =
     Inr \<lparr>orderId = 101, paymentRequired = False,
          message = ''Order created. Proceed to payment if needed.''\<rparr> \<and>
   orders (snd (checkout no_faults 7 (cod_request 14) demo_db)) \<noteq> orders demo_db \<and>
   exact_from 0 (items (last (orders (snd (checkout no_faults 7 (cod_request 14) demo_db))))) \<and>
   total (last (orders (snd (checkout no_faults 7 (cod_request 14) demo_db)))) =
     2 * (5 / 2) + 1 * 10 \<and>
   map priceAtPurchase
     (items (last (orders (snd (checkout no_faults 7 (cod_request 14) demo_db))))) =
     [5 / 2, 10] \<and>
   fst (checkout cart_down 7 (cod_request 14) demo_db) = Inl (Uncaught DbError) \<and>
   orders (snd (checkout cart_down 7 (cod_request 14) demo_db)) \<noteq> orders demo_db \<and>
   total (last (orders (snd (checkout cart_down 7 (cod_request 14) demo_db)))) = 15"
proof -
  have o: "orders demo_db = []" by (simp add: demo_db_def)
  have n: "orders (snd (checkout no_faults 7 (cod_request 14) demo_db)) \<noteq> orders demo_db"
    by (simp add: checkout_demo_14_orders o)
  have e: "exact_from 0
      (items (last (orders (snd (checkout no_faults 7 (cod_request 14) demo_db)))))"
    by (simp add: checkout_demo_14_orders round_double_evals)
  have cf: "fst (checkout cart_down 7 (cod_request 14) demo_db) = Inl (Uncaught DbError)"
    by (simp add: eval_defs cart_down_def)
  have c: "checkout cart_down 7 (cod_request 14) demo_db =
      (Inl (Uncaught DbError), snd (checkout cart_down 7 (cod_request 14) demo_db))"
    by (rule prod_eqI) (simp_all add: cf)
  have co: "orders (snd (checkout cart_down 7 (cod_request 14) demo_db)) =
     [\<lparr>o_id = 101, user = 14,
       items =
         [\<lparr>oi_product = 2, oi_quantity = 2, priceAtPurchase = 5 / 2, cod = False\<rparr>,
          \<lparr>oi_product = 1, oi_quantity = 1, priceAtPurchase = 10, cod = True\<rparr>],
       total = 15, paymentMethod = ''cod'', paymentStatus = ''Pending'', shipment = 100,
       createdAt = 7\<rparr>]"
    by (simp add: eval_defs cart_down_def)
  have n2: "orders (snd (checkout cart_down 7 (cod_request 14) demo_db)) \<noteq> orders demo_db"
    by (simp add: co o)
  from checkout_total_rounded[OF checkout_demo_14 n cart_demo_14] e
    checkout_total_rounded[OF c n2 cart_demo_14] n n2
  show ?thesis
    by (simp add: checkout_demo_14_response checkout_demo_14_orders co cf)
qed

text \<open>
  C8. For every successful checkout, the order it creates has paymentStatus Pending when
  the payment method is cod and Processing otherwise, and the response's paymentRequired
  says whether the payment method differs from cod.
\<close>

theorem checkout_payment_status:
  assumes "checkout fails now req d = (Inr ok, d')"
  shows "orders d' = orders d @ [last (orders d')] \<and>
         o_id (last (orders d')) = orderId ok \<and>
         paymentMethod (last (orders d')) = body_paymentMethod req \<and>
         paymentStatus (last (orders d')) =
           (if body_paymentMethod req = ''cod'' then ''Pending'' else ''Processing'') \<and>
         paymentRequired ok = (body_paymentMethod req \<noteq> ''cod'')"
  using checkout_order[OF assms] by auto

theorem checkout_payment_status_witness:
  "fst (checkout no_faults 7 (cod_request 14) demo_db) =
     Inr \<lparr>orderId = 101, paymentRequired = False,
          message = ''Order created. Proceed to payment if needed.''\<rparr> \<and>
   paymentStatus (last (orders (snd (checkout no_faults 7 (cod_request 14) demo_db)))) =
     ''Pending''"
  using checkout_payment_status[OF checkout_demo_14]
  by (simp add: checkout_demo_14_response cod_request_sel)

section \<open>Rejected checkouts\<close>

text \<open>
  C7. When the user has no cart or the cart has no lines, checkout answers 400
  "Empty cart" and the database is unchanged: stock, orders, shipments and carts are as
  before.
\<close>

theorem checkout_empty_cart:
  assumes "carts d (req_user req) = None \<or> carts d (req_user req) = Some []"
  shows "checkout fails now req d = (Inl (Http 400 ''Empty cart''), d)"
  using assms by (auto simp: checkout_def)

theorem checkout_empty_cart_witness:
  "carts demo_db (req_user (card_request 13)) = Some [] \<and>
   carts demo_db (req_user (card_request 15)) = None \<and>
   checkout no_faults 7 (card_request 13) demo_db = (Inl (Http 400 ''Empty cart''), demo_db) \<and>
   checkout no_faults 7 (card_request 15) demo_db = (Inl (Http 400 ''Empty cart''), demo_db)"
proof -
  have a: "carts demo_db (req_user (card_request 13)) = Some []"
    by (simp add: demo_db_def card_request_def)
  have b: "carts demo_db (req_user (card_request 15)) = None"
    by (simp add: demo_db_def card_request_def)
  show ?thesis
    using a b checkout_empty_cart[of demo_db "card_request 13" no_faults 7]
      checkout_empty_cart[of demo_db "card_request 15" no_faults 7]
    by simp
qed

text \<open>
  When the cart has a line whose product has less stock than the line asks for, and
  every line before it names an existing product with enough stock, checkout answers 400
  "Not enough stock for" followed by that product's name, and the database is unchanged:
  no stock is decremented.
\<close>

theorem checkout_insufficient_stock:
  assumes "carts d (req_user req) = Some (pre @ it # post)"
    and "\<forall>i\<in>set pre. \<exists>q. products d (product i) = Some q \<and> \<not> stock q < quantity i"
    and "products d (product it) = Some p" and "stock p < quantity it"
  shows "checkout fails now req d = (Inl (Http 400 (''Not enough stock for '' @ name p)), d)"
  using assms(1) validate_stock_first_failure[OF assms(2-4), of post]
  by (simp add: checkout_def Let_def)

theorem checkout_insufficient_stock_witness:
  "carts demo_db (req_user (card_request 12)) =
     Some ([\<lparr>product = 2, quantity = 2\<rparr>] @ \<lparr>product = 1, quantity = 3\<rparr> # []) \<and>
   products demo_db (product \<lparr>product = 2, quantity = 2\<rparr>) =
     Some \<lparr>name = ''Q'', price = 5 / 2, stock = 5, codAvailable = False\<rparr> \<and>
   \<not> stock \<lparr>name = ''Q'', price = 5 / 2, stock = 5, codAvailable = False\<rparr>
     < quantity \<lparr>product = 2, quantity = 2\<rparr> \<and>
   products demo_db (product \<lparr>product = 1, quantity = 3\<rparr>) =
     Some \<lparr>name = ''P'', price = 10, stock = 1, codAvailable = True\<rparr> \<and>
   stock \<lparr>name = ''P'', price = 10, stock = 1, codAvailable = True\<rparr>
     < quantity \<lparr>product = 1, quantity = 3\<rparr> \<and>
   checkout no_faults 7 (card_request 12) demo_db =
     (Inl (Http 400 ''Not enough stock for P''), demo_db)"
proof -
  have a: "carts demo_db (req_user (card_request 12)) =
     Some ([\<lparr>product = 2, quantity = 2\<rparr>] @ \<lparr>product = 1, quantity = 3\<rparr> # [])"
    by (simp add: demo_db_def card_request_def)
  have b: "\<forall>i\<in>set [\<lparr>product = 2, quantity = 2\<rparr>].
      \<exists>q. products demo_db (product i) = Some q \<and> \<not> stock q < quantity i"
    by (simp add: demo_db_def)
  have c: "products demo_db (product \<lparr>product = 1, quantity = 3\<rparr>) =
     Some \<lparr>name = ''P'', price = 10, stock = 1, codAvailable = True\<rparr>"
    by (simp add: demo_db_def)
  have e: "stock \<lparr>name = ''P'', price = 10, stock = 1, codAvailable = True\<rparr>
             < quantity \<lparr>product = 1, quantity = 3\<rparr>"
    by simp
  from checkout_insufficient_stock[OF a b c e, of no_faults 7] a c e
  show ?thesis by (simp add: demo_db_products)
qed

text \<open>
  C6. Checkout should abort with InsufficientStock, naming the first failing product,
  whenever a cart line asks for more than the stock of its product. User 16's cart asks
  for three P with one in stock, but its first line names product 9, which does not
  exist: populate leaves that line's product null, \<^verbatim>\<open>item.product._id\<close> throws a
  TypeError in the validation loop, and no 400 is sent. Nothing has been written by then.
\<close>

theorem checkout_missing_product_throws:
  "carts dangling_cart_db 16 =
     Some [\<lparr>product = 9, quantity = 1\<rparr>, \<lparr>product = 1, quantity = 3\<rparr>] \<and>
   products dangling_cart_db 9 = None \<and>
   map_option stock (products dangling_cart_db 1) = Some 1 \<and>
   checkout no_faults 7 (card_request 16) dangling_cart_db =
     (Inl (Uncaught TypeError), dangling_cart_db)"
  by (simp add: checkout_def dangling_cart_db_def demo_db_def card_request_def populate_def)

section \<open>What a successful checkout writes to the products\<close>

text \<open>
  C10. After a successful checkout every product document is the one from before with
  its stock lowered by the quantity the cart asks for of that product: name, price and
  codAvailable are as before, no product appears or disappears, and a product that no
  cart line names is unchanged.
\<close>

theorem checkout_touches_only_stock:
  assumes "checkout fails now req d = (Inr ok, d')"
    and "carts d (req_user req) = Some its"
  shows "products d' pid =
           map_option (\<lambda>p. p\<lparr>stock := stock p - cart_quantity its pid\<rparr>) (products d pid) \<and>
         (pid \<notin> product ` set its \<longrightarrow> products d' pid = products d pid)"
proof -
  have 1: "products d' pid =
      map_option (\<lambda>p. p\<lparr>stock := stock p - cart_quantity its pid\<rparr>) (products d pid)"
    by (rule checkout_products[OF assms])
  have "products d' pid = products d pid" if "pid \<notin> product ` set its"
    using 1 cart_quantity_absent[OF that] by (cases "products d pid") simp_all
  with 1 show ?thesis by blast
qed

theorem checkout_touches_only_stock_witness:
  "fst (checkout no_faults 7 (cod_request 14) demo_db) =
     Inr \<lparr>orderId = 101, paymentRequired = False,
          message = ''Order created. Proceed to payment if needed.''\<rparr> \<and>
   products (snd (checkout no_faults 7 (cod_request 14) demo_db)) 2 =
     Some \<lparr>name = ''Q'', price = 5 / 2, stock = 3, codAvailable = False\<rparr> \<and>
   3 \<notin> product ` set [\<lparr>product = 2, quantity = 2\<rparr>, \<lparr>product = 1, quantity = 1\<rparr>] \<and>
   products (snd (checkout no_faults 7 (cod_request 14) demo_db)) 3 = products demo_db 3"
  using checkout_touches_only_stock[OF checkout_demo_14 cart_demo_14, of 2]
    checkout_touches_only_stock[OF checkout_demo_14 cart_demo_14, of 3]
  by (simp add: checkout_demo_14_response cart_quantity_def demo_db_products)

section \<open>Failures after validation\<close>

text \<open>
  C3, as stated, does not hold of the handler. User 14's cart passes validation against
  the example shop. When the shipment cannot be created, or the order cannot, the
  handler throws, and the stock of Q, 5 before, is 3 afterwards: the decrement is not
  undone. In the second case the shipment just created stays as well.
\<close>

theorem checkout_failure_leaves_stock_decremented:
  "validate_stock demo_db
     (populate demo_db [\<lparr>product = 2, quantity = 2\<rparr>, \<lparr>product = 1, quantity = 1\<rparr>]) = None \<and>
   fst (checkout shipment_down 7 (cod_request 14) demo_db) = Inl (Uncaught DbError) \<and>
   map_option stock (products demo_db 2) = Some 5 \<and>
   map_option stock (products (snd (checkout shipment_down 7 (cod_request 14) demo_db)) 2) = Some 3 \<and>
   fst (checkout order_down 7 (cod_request 14) demo_db) = Inl (Uncaught DbError) \<and>
   map_option stock (products (snd (checkout order_down 7 (cod_request 14) demo_db)) 2) = Some 3 \<and>
   shipments demo_db = [] \<and>
   shipments (snd (checkout order_down 7 (cod_request 14) demo_db)) =
     [\<lparr>s_id = 100, trackingNumber = ''TRK-7'', status = ''Created'', updatedAt = 7\<rparr>]"
  by (simp add: eval_defs shipment_down_def order_down_def)

text \<open>
  C3, as the handler has it. If a checkout passes stock validation and then the creation
  of the shipment or of the order fails (the product saves succeeding), the exception
  escapes the handler; no order from the attempt is stored and the cart is kept, but
  nothing is rolled back: every product's stock stays lowered by the quantity the cart
  asks for. No shipment is stored when its creation failed; the shipment created stays
  when the creation of the order failed.
\<close>

theorem checkout_failure_no_rollback:
  assumes "carts d (req_user req) = Some its" and "its \<noteq> []"
    and "validate_stock d (populate d its) = None"
    and "\<forall>pid. \<not> fails (ProductSave pid)"
    and "fails ShipmentCreate \<or> fails OrderCreate"
  shows "fst (checkout fails now req d) = Inl (Uncaught DbError) \<and>
         orders (snd (checkout fails now req d)) = orders d \<and>
         carts (snd (checkout fails now req d)) = carts d \<and>
         (\<forall>pid. products (snd (checkout fails now req d)) pid =
            map_option (\<lambda>p. p\<lparr>stock := stock p - cart_quantity its pid\<rparr>) (products d pid)) \<and>
         shipments (snd (checkout fails now req d)) =
           (if fails ShipmentCreate then shipments d
            else shipments d @
              [\<lparr>s_id = next_oid d, trackingNumber = ''TRK-'' @ string_of_nat now,
                status = ''Created'', updatedAt = now\<rparr>])"
proof -
  let ?cart = "populate d its"
  note docs = validate_stock_docs[OF assms(3)]
  obtain d1 where r: "reserve_stock fails d ?cart = (None, d1)"
    using reserve_stock_no_exit[OF docs assms(4)] by (cases "reserve_stock fails d ?cart") auto
  from docs have "order_items ?cart \<noteq> None"
    by (intro order_items_docs) auto
  then obtain ois where oi: "order_items ?cart = Some ois" by blast
  have c: "checkout fails now req d = place_order fails now req ?cart d1"
    using assms(1-3) r by (simp add: checkout_def Let_def)
  have pr: "products d1 pid =
      map_option (\<lambda>p. p\<lparr>stock := stock p - cart_quantity its pid\<rparr>) (products d pid)" for pid
    using reserve_stock_products[OF r, of pid] by (simp add: map_fst_populate)
  note f = reserve_stock_fields[OF r]
  show ?thesis
  proof (cases "fails ShipmentCreate")
    case True
    then have "checkout fails now req d = (Inl (Uncaught DbError), d1)"
      by (simp add: c place_order_def oi)
    with True f pr show ?thesis by simp
  next
    case False
    with assms(5) have "fails OrderCreate" by simp
    with False have "checkout fails now req d =
        (Inl (Uncaught DbError),
         d1\<lparr>shipments := shipments d1 @
               [\<lparr>s_id = next_oid d1, trackingNumber = ''TRK-'' @ string_of_nat now,
                 status = ''Created'', updatedAt = now\<rparr>],
             next_oid := next_oid d1 + 1\<rparr>)"
      by (simp add: c place_order_def oi Let_def)
    with False f pr show ?thesis by simp
  qed
qed

theorem checkout_failure_no_rollback_witness:
  "carts demo_db (req_user (cod_request 14)) =
     Some [\<lparr>product = 2, quantity = 2\<rparr>, \<lparr>product = 1, quantity = 1\<rparr>] \<and>
   validate_stock demo_db
     (populate demo_db [\<lparr>product = 2, quantity = 2\<rparr>, \<lparr>product = 1, quantity = 1\<rparr>]) = None \<and>
   (\<forall>pid. \<not> order_down (ProductSave pid)) \<and> order_down OrderCreate \<and>
   fst (checkout order_down 7 (cod_request 14) demo_db) = Inl (Uncaught DbError) \<and>
   orders (snd (checkout order_down 7 (cod_request 14) demo_db)) = orders demo_db \<and>
   products (snd (checkout order_down 7 (cod_request 14) demo_db)) 2 =
     Some \<lparr>name = ''Q'', price = 5 / 2, stock = 3, codAvailable = False\<rparr> \<and>
   (\<forall>pid. \<not> shipment_down (ProductSave pid)) \<and> shipment_down ShipmentCreate \<and>
   fst (checkout shipment_down 7 (cod_request 14) demo_db) = Inl (Uncaught DbError) \<and>
   shipments (snd (checkout shipment_down 7 (cod_request 14) demo_db)) = shipments demo_db"
proof -
  have v: "validate_stock demo_db
     (populate demo_db [\<lparr>product = 2, quantity = 2\<rparr>, \<lparr>product = 1, quantity = 1\<rparr>]) = None"
    by (simp add: populate_def demo_db_def)
  have n: "[\<lparr>product = 2, quantity = 2\<rparr>, \<lparr>product = 1, quantity = 1\<rparr>] \<noteq> []" by simp
  have p: "\<forall>pid. \<not> order_down (ProductSave pid)" by (simp add: order_down_def)
  have q': "order_down ShipmentCreate \<or> order_down OrderCreate" by (simp add: order_down_def)
  have o: "order_down OrderCreate" by (simp add: order_down_def)
  note r = checkout_failure_no_rollback[OF cart_demo_14 n v p q', of 7]
  from r have r1: "fst (checkout order_down 7 (cod_request 14) demo_db) = Inl (Uncaught DbError)"
    and r2: "orders (snd (checkout order_down 7 (cod_request 14) demo_db)) = orders demo_db"
    by simp_all
  from r have "products (snd (checkout order_down 7 (cod_request 14) demo_db)) 2 =
      map_option
        (\<lambda>p. p\<lparr>stock := stock p -
           cart_quantity [\<lparr>product = 2, quantity = 2\<rparr>, \<lparr>product = 1, quantity = 1\<rparr>] 2\<rparr>)
        (products demo_db 2)"
    by blast
  then have r3: "products (snd (checkout order_down 7 (cod_request 14) demo_db)) 2 =
     Some \<lparr>name = ''Q'', price = 5 / 2, stock = 3, codAvailable = False\<rparr>"
    by (simp add: cart_quantity_def demo_db_products)
  have p2: "\<forall>pid. \<not> shipment_down (ProductSave pid)" by (simp add: shipment_down_def)
  have o2: "shipment_down ShipmentCreate" by (simp add: shipment_down_def)
  have q2: "shipment_down ShipmentCreate \<or> shipment_down OrderCreate"
    by (simp add: shipment_down_def)
  from checkout_failure_no_rollback[OF cart_demo_14 n v p2 q2, of 7] o2
  have r4: "fst (checkout shipment_down 7 (cod_request 14) demo_db) = Inl (Uncaught DbError)"
    and r5: "shipments (snd (checkout shipment_down 7 (cod_request 14) demo_db)) =
      shipments demo_db"
    by simp_all
  from cart_demo_14 v p o r1 r2 r3 p2 o2 r4 r5 show ?thesis by blast
qed

section \<open>Repeated checkout\<close>

lemma place_order_ignores_key:
  "place_order fails now (req\<lparr>idempotencyKey := k\<rparr>) cart d1 = place_order fails now req cart d1"
  by (simp add: place_order_def Let_def split: option.splits)

text \<open>
  C5, as stated, does not hold of the handler. User 14 checks out with idempotency key
  k1 and gets order 101; the same request, with the same key, handled right after it is
  answered 400 "Empty cart" and not with the first call's result.
\<close>

theorem checkout_same_key_reruns:
  "idempotencyKey (cod_request 14) = Some ''k1'' \<and>
   fst (checkout no_faults 7 (cod_request 14) demo_db) =
     Inr \<lparr>orderId = 101, paymentRequired = False,
          message = ''Order created. Proceed to payment if needed.''\<rparr> \<and>
   fst (checkout no_faults 8 (cod_request 14) (snd (checkout no_faults 7 (cod_request 14) demo_db)))
     = Inl (Http 400 ''Empty cart'')"
  by (simp add: eval_defs)

text \<open>
  C5, as the handler has it. The handler never reads an idempotency key: a checkout
  gives the same response and database whatever key the request carries. A successful
  checkout appends exactly one order and empties the cart, so a further checkout by the
  same user handled right after it, with any key, runs the handler again, answers 400
  "Empty cart" and leaves the database as it is.
\<close>

theorem checkout_repeat_finds_empty_cart:
  assumes "checkout fails now req d = (Inr ok, d')"
    and "req_user req' = req_user req"
  shows "orders d' = orders d @ [last (orders d')] \<and>
         checkout fails' now' req' d' = (Inl (Http 400 ''Empty cart''), d') \<and>
         checkout fails now (req\<lparr>idempotencyKey := k\<rparr>) d = checkout fails now req d"
proof -
  from checkout_success[OF assms(1)] obtain its d1 where
    p: "place_order fails now req (populate d its) d1 = (Inr ok, d')"
    by blast
  from place_order_success[OF p] have "carts d' (req_user req) = Some []"
    by auto
  then have "checkout fails' now' req' d' = (Inl (Http 400 ''Empty cart''), d')"
    using assms(2) by (simp add: checkout_def)
  moreover have "checkout fails now (req\<lparr>idempotencyKey := k\<rparr>) d = checkout fails now req d"
    by (simp add: checkout_def place_order_ignores_key
        cong: option.case_cong prod.case_cong if_cong)
  moreover have "orders d' = orders d @ [last (orders d')]"
    using checkout_order[OF assms(1)] by auto
  ultimately show ?thesis by simp
qed

theorem checkout_repeat_finds_empty_cart_witness:
  "fst (checkout no_faults 7 (cod_request 14) demo_db) =
     Inr \<lparr>orderId = 101, paymentRequired = False,
          message = ''Order created. Proceed to payment if needed.''\<rparr> \<and>
   req_user (cod_request 14) = req_user (cod_request 14) \<and>
   checkout no_faults 8 (cod_request 14) (snd (checkout no_faults 7 (cod_request 14) demo_db)) =
     (Inl (Http 400 ''Empty cart''), snd (checkout no_faults 7 (cod_request 14) demo_db)) \<and>
   length (orders (snd (checkout no_faults 7 (cod_request 14) demo_db))) =
     length (orders demo_db) + 1"
proof -
  from checkout_repeat_finds_empty_cart[OF checkout_demo_14 refl, of no_faults 8 None]
  have "orders (snd (checkout no_faults 7 (cod_request 14) demo_db)) =
          orders demo_db @ [last (orders (snd (checkout no_faults 7 (cod_request 14) demo_db)))]"
    and "checkout no_faults 8 (cod_request 14) (snd (checkout no_faults 7 (cod_request 14) demo_db)) =
     (Inl (Http 400 ''Empty cart''), snd (checkout no_faults 7 (cod_request 14) demo_db))"
    by simp_all
  moreover have "orders demo_db = []" by (simp add: demo_db_def)
  ultimately show ?thesis
    by (simp add: checkout_demo_14_response checkout_demo_14_orders)
qed

section \<open>Shipment updates\<close>

lemma find_save_shipment:
  "find (\<lambda>s. s_id s = j) (save_shipment sh xs) =
     (if j = s_id sh \<and> find (\<lambda>s. s_id s = j) xs \<noteq> None then Some sh
      else find (\<lambda>s. s_id s = j) xs)"
  by (induction xs) auto

lemma find_Some_id: "find (\<lambda>s. s_id s = j) xs = Some sh \<Longrightarrow> s_id sh = j"
  by (induction xs) (auto split: if_splits)

text \<open>
  C2, as stated, does not hold of the handler. The shipment of order 101 is in status
  Created. A request for Delivered, which skips Shipped and InTransit, succeeds and the
  status is Delivered; a request for Created after it, which goes backwards, succeeds as
  well and the status is Created again.
\<close>

theorem update_shipment_skips_and_regresses:
  "map_option status (find_shipment placed_db 100) = Some ''Created'' \<and>
   fst (update_shipment 9 101 ''Delivered'' placed_db) = Inr True \<and>
   map_option status (find_shipment (snd (update_shipment 9 101 ''Delivered'' placed_db)) 100)
     = Some ''Delivered'' \<and>
   fst (update_shipment 10 101 ''Created'' (snd (update_shipment 9 101 ''Delivered'' placed_db)))
     = Inr True \<and>
   map_option status
     (find_shipment
        (snd (update_shipment 10 101 ''Created''
                (snd (update_shipment 9 101 ''Delivered'' placed_db)))) 100)
     = Some ''Created''"
  by (simp add: placed_db_simps)

text \<open>
  C2, as the handler has it. A status update for an order that exists and whose shipment
  exists succeeds whatever the current and the requested status are: afterwards that
  shipment has the requested status and the time of the update, and every other
  shipment, the orders, the products and the carts are as before. A status update for
  an order that does not exist is answered 404 "Order not found" and changes nothing.
\<close>

theorem update_shipment_sets_status:
  "(find_order d i = None \<longrightarrow>
      update_shipment now i st d = (Inl (Http 404 ''Order not found''), d)) \<and>
   (find_order d i = Some ord \<and> find_shipment d (shipment ord) = Some sh \<longrightarrow>
      fst (update_shipment now i st d) = Inr True \<and>
      find_shipment (snd (update_shipment now i st d)) (shipment ord) =
        Some (sh\<lparr>status := st, updatedAt := now\<rparr>) \<and>
      (\<forall>j. j \<noteq> shipment ord \<longrightarrow>
         find_shipment (snd (update_shipment now i st d)) j = find_shipment d j) \<and>
      orders (snd (update_shipment now i st d)) = orders d \<and>
      products (snd (update_shipment now i st d)) = products d \<and>
      carts (snd (update_shipment now i st d)) = carts d)"
proof (intro conjI impI)
  assume "find_order d i = None"
  then show "update_shipment now i st d = (Inl (Http 404 ''Order not found''), d)"
    by (simp add: update_shipment_def)
next
  assume a: "find_order d i = Some ord \<and> find_shipment d (shipment ord) = Some sh"
  then have u: "update_shipment now i st d =
      (Inr True,
       d\<lparr>shipments := save_shipment (sh\<lparr>status := st, updatedAt := now\<rparr>) (shipments d)\<rparr>)"
    by (simp add: update_shipment_def)
  from a have id: "s_id sh = shipment ord"
    by (auto simp: find_shipment_def dest: find_Some_id)
  show "fst (update_shipment now i st d) = Inr True" by (simp add: u)
  show "find_shipment (snd (update_shipment now i st d)) (shipment ord) =
        Some (sh\<lparr>status := st, updatedAt := now\<rparr>)"
    using a id by (simp add: u find_shipment_def find_save_shipment)
  show "\<forall>j. j \<noteq> shipment ord \<longrightarrow>
         find_shipment (snd (update_shipment now i st d)) j = find_shipment d j"
    using id by (simp add: u find_shipment_def find_save_shipment)
  show "orders (snd (update_shipment now i st d)) = orders d" by (simp add: u)
  show "products (snd (update_shipment now i st d)) = products d" by (simp add: u)
  show "carts (snd (update_shipment now i st d)) = carts d" by (simp add: u)
qed

theorem update_shipment_sets_status_witness:
  "find_order placed_db 7 = None \<and>
   update_shipment 9 7 ''Shipped'' placed_db = (Inl (Http 404 ''Order not found''), placed_db) \<and>
   find_order placed_db 101 = Some (last (orders placed_db)) \<and>
   find_shipment placed_db (shipment (last (orders placed_db))) =
     Some \<lparr>s_id = 100, trackingNumber = ''TRK-7'', status = ''Created'', updatedAt = 7\<rparr> \<and>
   fst (update_shipment 9 101 ''Delivered'' placed_db) = Inr True \<and>
   find_shipment (snd (update_shipment 9 101 ''Delivered'' placed_db)) 100 =
     Some \<lparr>s_id = 100, trackingNumber = ''TRK-7'', status = ''Delivered'', updatedAt = 9\<rparr>"
proof -
  have a: "find_order placed_db 7 = None"
    by (simp add: find_order_def placed_db_orders)
  have b: "find_order placed_db 101 = Some (last (orders placed_db))"
    by (simp add: find_order_def placed_db_orders)
  have c: "find_shipment placed_db (shipment (last (orders placed_db))) =
     Some \<lparr>s_id = 100, trackingNumber = ''TRK-7'', status = ''Created'', updatedAt = 7\<rparr>"
    by (simp add: find_shipment_def placed_db_orders placed_db_shipments)
  have s: "shipment (last (orders placed_db)) = 100"
    by (simp add: placed_db_orders)
  from update_shipment_sets_status[where d = placed_db and i = 7 and now = 9
        and st = "''Shipped''"]
    update_shipment_sets_status[where d = placed_db and i = 101 and now = 9
        and st = "''Delivered''" and ord = "last (orders placed_db)"
        and sh = "\<lparr>s_id = 100, trackingNumber = ''TRK-7'', status = ''Created'',
                   updatedAt = 7\<rparr>"]
    a b c s
  show ?thesis by simp
qed

section \<open>Tracking\<close>

lemma tracking_found:
  "find_order d i = Some ord \<Longrightarrow> find_shipment d (shipment ord) = Some sh \<Longrightarrow>
   tracking d i = Inr (trackingNumber sh, status sh)"
  by (simp add: tracking_def)

lemma tracking_order_missing:
  "find_order d i = None \<Longrightarrow> tracking d i = Inl (Http 404 ''Order not found'')"
  by (simp add: tracking_def)

text \<open>
  C9. The tracking lookup should fail with NotFound when the order's shipment does not
  exist. Order 53 of \<open>dangling_db\<close> refers to shipment 52, which does not exist: the
  lookup throws a TypeError out of the handler and no 404 is sent. (When order and
  shipment exist the lookup returns the tracking number and the status, and when the
  order does not exist it answers 404: the two lemmas above.)
\<close>

theorem tracking_missing_shipment_throws:
  "map_option shipment (find_order dangling_db 53) = Some 52 \<and>
   find_shipment dangling_db 52 = None \<and>
   tracking dangling_db 53 = Inl (Uncaught TypeError) \<and>
   tracking dangling_db 53 \<noteq> Inl (Http 404 ''Order not found'')"
  by (simp add: tracking_def find_order_def find_shipment_def dangling_db_def)

section \<open>One handler running alone\<close>

lemma run_alone_0: "run_alone fails now req 0 c = c"
  by (simp add: run_alone_def)

lemma run_alone_Suc:
  "run_alone fails now req (Suc n) (pc, d) =
     run_alone fails now req n (checkout_step fails now req pc d)"
  by (simp add: run_alone_def funpow_swap1)

lemma run_alone_add:
  "run_alone fails now req (m + n) c = run_alone fails now req n (run_alone fails now req m c)"
  unfolding run_alone_def by (subst add.commute) (simp add: funpow_add)

lemma run_alone_Done: "run_alone fails now req n (Done r, d) = (Done r, d)"
  by (induction n) (simp_all add: run_alone_0 run_alone_Suc)

lemma validate_steps:
  "\<exists>n. run_alone fails now req n (Validate cart rest, d) =
     (case validate_stock d rest of
        Some e \<Rightarrow> (Done (Inl e), d)
      | None \<Rightarrow> (ReserveFind cart cart, d))"
proof (induction rest)
  case Nil
  have "run_alone fails now req (Suc 0) (Validate cart [], d) = (ReserveFind cart cart, d)"
    by (simp add: run_alone_Suc run_alone_0)
  then show ?case by (intro exI[of _ "Suc 0"]) simp
next
  case (Cons a rest)
  obtain i doc where a: "a = (i, doc)" by (cases a)
  from Cons obtain n where n: "run_alone fails now req n (Validate cart rest, d) =
     (case validate_stock d rest of
        Some e \<Rightarrow> (Done (Inl e), d)
      | None \<Rightarrow> (ReserveFind cart cart, d))" by blast
  have "run_alone fails now req (Suc n) (Validate cart (a # rest), d) =
     (case validate_stock d (a # rest) of
        Some e \<Rightarrow> (Done (Inl e), d)
      | None \<Rightarrow> (ReserveFind cart cart, d))"
    unfolding a using n
    by (auto simp: run_alone_Suc run_alone_Done split: option.splits)
  then show ?case by blast
qed

lemma reserve_steps:
  "\<exists>n. run_alone fails now req n (ReserveFind cart rest, d) =
     (case reserve_stock fails d rest of
        (Some e, d1) \<Rightarrow> (Done (Inl e), d1)
      | (None, d1) \<Rightarrow> (CreateShipment cart, d1))"
proof (induction rest arbitrary: d)
  case Nil
  have "run_alone fails now req (Suc 0) (ReserveFind cart [], d) = (CreateShipment cart, d)"
    by (simp add: run_alone_Suc run_alone_0)
  then show ?case by (intro exI[of _ "Suc 0"]) simp
next
  case (Cons a rest)
  obtain i doc where a: "a = (i, doc)" by (cases a)
  show ?case
  proof (cases "doc = None \<or> products d (product i) = None \<or> fails (ProductSave (product i))")
    case True
    then have "run_alone fails now req (Suc (Suc 0)) (ReserveFind cart (a # rest), d) =
     (case reserve_stock fails d (a # rest) of
        (Some e, d1) \<Rightarrow> (Done (Inl e), d1)
      | (None, d1) \<Rightarrow> (CreateShipment cart, d1))"
      unfolding a
      by (auto simp: run_alone_Suc run_alone_Done run_alone_0 split: option.splits)
    then show ?thesis by blast
  next
    case False
    then obtain q p where q: "doc = Some q" and p: "products d (product i) = Some p"
      and f: "\<not> fails (ProductSave (product i))" by auto
    let ?d = "d\<lparr>products := (products d)(product i \<mapsto> p\<lparr>stock := stock p - quantity i\<rparr>)\<rparr>"
    from Cons[of ?d] obtain n where n: "run_alone fails now req n (ReserveFind cart rest, ?d) =
     (case reserve_stock fails ?d rest of
        (Some e, d1) \<Rightarrow> (Done (Inl e), d1)
      | (None, d1) \<Rightarrow> (CreateShipment cart, d1))" by blast
    have "run_alone fails now req (Suc (Suc n)) (ReserveFind cart (a # rest), d) =
     (case reserve_stock fails d (a # rest) of
        (Some e, d1) \<Rightarrow> (Done (Inl e), d1)
      | (None, d1) \<Rightarrow> (CreateShipment cart, d1))"
      unfolding a using n q p f by (simp add: run_alone_Suc)
    then show ?thesis by blast
  qed
qed

lemma place_steps:
  "run_alone fails now req (Suc (Suc (Suc 0))) (CreateShipment cart, d1) =
     (Done (fst (place_order fails now req cart d1)), snd (place_order fails now req cart d1))"
  by (simp add: run_alone_Suc run_alone_0 run_alone_Done place_order_def Let_def
      split: option.splits)

lemma checkout_steps_alone:
  "\<exists>n. run_alone fails now req n (FindCart, d) =
     (Done (fst (checkout fails now req d)), snd (checkout fails now req d))"
proof (cases "carts d (req_user req) = None \<or> carts d (req_user req) = Some []")
  case True
  then have "run_alone fails now req (Suc 0) (FindCart, d) =
     (Done (fst (checkout fails now req d)), snd (checkout fails now req d))"
    by (auto simp: run_alone_Suc run_alone_0 checkout_def)
  then show ?thesis by blast
next
  case False
  then obtain its where its: "carts d (req_user req) = Some its" "its \<noteq> []" by auto
  let ?cart = "populate d its"
  have s1: "run_alone fails now req (Suc 0) (FindCart, d) = (Validate ?cart ?cart, d)"
    using its by (simp add: run_alone_Suc run_alone_0)
  obtain n1 where s2: "run_alone fails now req n1 (Validate ?cart ?cart, d) =
     (case validate_stock d ?cart of
        Some e \<Rightarrow> (Done (Inl e), d)
      | None \<Rightarrow> (ReserveFind ?cart ?cart, d))"
    using validate_steps by blast
  show ?thesis
  proof (cases "validate_stock d ?cart")
    case (Some e)
    then have "run_alone fails now req (Suc 0 + n1) (FindCart, d) =
       (Done (fst (checkout fails now req d)), snd (checkout fails now req d))"
      using its s1 s2 by (simp only: run_alone_add) (simp add: checkout_def Let_def)
    then show ?thesis by blast
  next
    case None
    obtain n2 where s3: "run_alone fails now req n2 (ReserveFind ?cart ?cart, d) =
     (case reserve_stock fails d ?cart of
        (Some e, d1) \<Rightarrow> (Done (Inl e), d1)
      | (None, d1) \<Rightarrow> (CreateShipment ?cart, d1))"
      using reserve_steps by blast
    obtain e d1 where r: "reserve_stock fails d ?cart = (e, d1)"
      by (cases "reserve_stock fails d ?cart")
    have "run_alone fails now req (Suc 0 + n1 + n2 + Suc (Suc (Suc 0))) (FindCart, d) =
       (Done (fst (checkout fails now req d)), snd (checkout fails now req d))"
      using its s1 s2 s3 None r
      by (cases e) (simp_all only: run_alone_add,
          simp_all add: checkout_def Let_def run_alone_Done place_steps)
    then show ?thesis by blast
  qed
qed

section \<open>Checkouts at the same time and one after the other\<close>

text \<open>
  C1, as stated, does not hold of the handler. Product P has one piece in stock; users
  10 and 11 each have one P in their cart and check out at the same time. In the
  schedule below both handlers read their cart and validate the stock (two database
  calls each) before either reserves; then each runs to its end. Both attempts succeed,
  so the quantities of the succeeding attempts sum to 2 with a stock of 1, and the stock
  of P ends at -1.
\<close>

theorem interleaved_checkouts_oversell:
  "map_option stock (products demo_db 1) = Some 1 \<and>
   cart_quantity (cart_of demo_db 10) 1 = 1 \<and>
   cart_quantity (cart_of demo_db 11) 1 = 1 \<and>
   map h_pc
     (fst (run_schedule no_faults [0, 0, 1, 1, 0, 0, 0, 0, 0, 0, 0, 1, 1, 1, 1, 1, 1, 1]
             ([start 7 (cod_request 10), start 8 (cod_request 11)], demo_db))) =
     [Done (Inr \<lparr>orderId = 101, paymentRequired = False,
                 message = ''Order created. Proceed to payment if needed.''\<rparr>),
      Done (Inr \<lparr>orderId = 103, paymentRequired = False,
                 message = ''Order created. Proceed to payment if needed.''\<rparr>)] \<and>
   map_option stock
     (products
        (snd (run_schedule no_faults [0, 0, 1, 1, 0, 0, 0, 0, 0, 0, 0, 1, 1, 1, 1, 1, 1, 1]
                ([start 7 (cod_request 10), start 8 (cod_request 11)], demo_db))) 1) =
     Some (- 1)"
  by (simp add: race_defs)

lemma no_faults_ProductSave: "\<forall>pid. \<not> no_faults (ProductSave pid)"
  by (simp add: no_faults_def)

lemma checkout_no_faults_rejected:
  assumes "checkout no_faults now req d = (Inl e, d1)"
  shows "d1 = d"
proof (cases "carts d (req_user req) = None \<or> carts d (req_user req) = Some []")
  case True
  with assms show ?thesis by (auto simp: checkout_def)
next
  case False
  then obtain its where its: "carts d (req_user req) = Some its" "its \<noteq> []" by auto
  let ?cart = "populate d its"
  show ?thesis
  proof (cases "validate_stock d ?cart")
    case (Some e')
    with assms its show ?thesis by (simp add: checkout_def Let_def)
  next
    case None
    note docs = validate_stock_docs[OF None]
    obtain d2 where r: "reserve_stock no_faults d ?cart = (None, d2)"
      using reserve_stock_no_exit[OF docs no_faults_ProductSave]
      by (cases "reserve_stock no_faults d ?cart") auto
    from docs have "order_items ?cart \<noteq> None"
      by (intro order_items_docs) auto
    then obtain ois where "order_items ?cart = Some ois" by blast
    then have "\<exists>ok d'. place_order no_faults now req ?cart d2 = (Inr ok, d')"
      by (simp add: place_order_def no_faults_def Let_def)
    with assms its None r show ?thesis by (auto simp: checkout_def Let_def)
  qed
qed

lemma validated_quantity:
  assumes "distinct (map product its)" and "validate_stock d (populate d its) = None"
    and "products d pid = Some p" and "0 \<le> stock p"
  shows "cart_quantity its pid \<le> stock p"
  using assms(1,2)
proof (induction its)
  case Nil
  with assms(4) show ?case by (simp add: cart_quantity_def)
next
  case (Cons i its)
  from Cons.prems(2) have v: "validate_stock d (populate d its) = None"
    by (auto simp: populate_def split: option.splits if_splits)
  show ?case
  proof (cases "product i = pid")
    case True
    with Cons.prems(1) have "pid \<notin> product ` set its" by auto
    then have "cart_quantity its pid = 0" by (rule cart_quantity_absent)
    then have "cart_quantity (i # its) pid = quantity i"
      using True by (simp add: cart_quantity_def)
    moreover from Cons.prems(2) True assms(3) have "\<not> stock p < quantity i"
      by (auto simp: populate_def split: option.splits if_splits)
    ultimately show ?thesis by simp
  next
    case False
    then have "cart_quantity (i # its) pid = cart_quantity its pid"
      by (simp add: cart_quantity_def)
    with Cons.IH[OF _ v] Cons.prems(1) show ?thesis by simp
  qed
qed

lemma checkout_cart_of:
  assumes "checkout fails now req d = (r, d1)"
  shows "cart_of d1 u = cart_of d u \<or> cart_of d1 u = []"
proof -
  have "carts d1 = carts d \<or> carts d1 = (carts d)(req_user req \<mapsto> [])"
    using assms
    by (auto simp: checkout_def Let_def place_order_def
        split: option.splits if_splits prod.splits dest: reserve_stock_fields(1))
  then show ?thesis by (auto simp: cart_of_def)
qed

lemma checkout_seq_snd:
  "snd (checkout_seq ((now, req) # rs) d) =
     snd (checkout_seq rs (snd (checkout no_faults now req d)))"
  by (simp split: prod.splits)

text \<open>
  C1, as the handler has it. Let product \<open>pid\<close> have stock S, not negative, and let
  the checkout requests \<open>rs\<close> be handled one after the other, every write succeeding,
  each requester's cart naming a product at most once. Then the quantities of \<open>pid\<close>
  asked for by the requests that succeed sum to at most S, and the stock left is S minus
  that sum: it is never negative.
\<close>

theorem sequential_checkouts_never_oversell:
  assumes "products d pid = Some p" and "0 \<le> stock p"
    and "list_all (\<lambda>(now, req). distinct (map product (cart_of d (req_user req)))) rs"
  shows "sold pid rs d \<le> stock p \<and>
         map_option stock (products (snd (checkout_seq rs d)) pid) =
           Some (stock p - sold pid rs d)"
  using assms
proof (induction rs arbitrary: d p)
  case Nil
  then show ?case by simp
next
  case (Cons a rs)
  obtain now req where a: "a = (now, req)" by (cases a)
  obtain r d1 where c: "checkout no_faults now req d = (r, d1)"
    by (cases "checkout no_faults now req d")
  have inv: "list_all (\<lambda>(now, req). distinct (map product (cart_of d1 (req_user req)))) rs"
    unfolding list_all_iff
  proof (clarify)
    fix n' r' assume "(n', r') \<in> set rs"
    with Cons.prems(3) have "distinct (map product (cart_of d (req_user r')))"
      by (auto simp: list_all_iff)
    with checkout_cart_of[OF c, of "req_user r'"]
    show "distinct (map product (cart_of d1 (req_user r')))" by auto
  qed
  show ?case
  proof (cases r)
    case (Inl e)
    with c have "d1 = d" by (auto dest: checkout_no_faults_rejected)
    with Cons.IH[OF Cons.prems(1,2)] inv c Inl show ?thesis
      unfolding a by (simp add: checkout_seq_snd del: checkout_seq.simps)
  next
    case (Inr ok)
    from checkout_success[OF c[unfolded Inr]] obtain its where
      its: "carts d (req_user req) = Some its" and
      v: "validate_stock d (populate d its) = None" by blast
    have co: "cart_of d (req_user req) = its" using its by (simp add: cart_of_def)
    from Cons.prems(3) co have dist: "distinct (map product its)"
      unfolding a by simp
    have q: "cart_quantity its pid \<le> stock p"
      by (rule validated_quantity[OF dist v Cons.prems(1,2)])
    let ?p = "p\<lparr>stock := stock p - cart_quantity its pid\<rparr>"
    have p1: "products d1 pid = Some ?p"
      using checkout_products[OF c[unfolded Inr] its, of pid] Cons.prems(1) by simp
    have "0 \<le> stock ?p" using q by simp
    from Cons.IH[OF p1 this inv] c Inr co q show ?thesis
      unfolding a by (simp add: checkout_seq_snd algebra_simps del: checkout_seq.simps)
  qed
qed

theorem sequential_checkouts_never_oversell_witness:
  "products demo_db 1 = Some \<lparr>name = ''P'', price = 10, stock = 1, codAvailable = True\<rparr> \<and>
   list_all (\<lambda>(now, req). distinct (map product (cart_of demo_db (req_user req))))
     [(7, cod_request 10), (8, cod_request 11)] \<and>
   map fst [checkout no_faults 7 (cod_request 10) demo_db,
            checkout no_faults 8 (cod_request 11) (snd (checkout no_faults 7 (cod_request 10) demo_db))] =
     [Inr \<lparr>orderId = 101, paymentRequired = False,
           message = ''Order created. Proceed to payment if needed.''\<rparr>,
      Inl (Http 400 ''Not enough stock for P'')] \<and>
   sold 1 [(7, cod_request 10), (8, cod_request 11)] demo_db = 1 \<and>
   map_option stock
     (products (snd (checkout_seq [(7, cod_request 10), (8, cod_request 11)] demo_db)) 1) = Some 0"
proof -
  have p: "products demo_db 1 = Some \<lparr>name = ''P'', price = 10, stock = 1, codAvailable = True\<rparr>"
    by (simp add: demo_db_def)
  have s: "(0::rat) \<le> stock \<lparr>name = ''P'', price = 10, stock = 1, codAvailable = True\<rparr>"
    by simp
  have l: "list_all (\<lambda>(now, req). distinct (map product (cart_of demo_db (req_user req))))
     [(7, cod_request 10), (8, cod_request 11)]"
    by (simp add: cart_of_def demo_db_def cod_request_def)
  have e: "map fst [checkout no_faults 7 (cod_request 10) demo_db,
            checkout no_faults 8 (cod_request 11) (snd (checkout no_faults 7 (cod_request 10) demo_db))] =
     [Inr \<lparr>orderId = 101, paymentRequired = False,
           message = ''Order created. Proceed to payment if needed.''\<rparr>,
      Inl (Http 400 ''Not enough stock for P'')]"
    by (simp add: eval_defs)
  have so: "sold 1 [(7, cod_request 10), (8, cod_request 11)] demo_db = 1"
    by (simp add: eval_defs cart_of_def cart_quantity_def)
  from sequential_checkouts_never_oversell[OF p s l] so p l e
  show ?thesis by simp
qed

end
